theory Spec2Isabelle
  imports Complex_Main "HOL-Library.List_Lexorder"
begin

section \<open>Python strings\<close>

text \<open>
  A Python \<open>str\<close> is a sequence of Unicode code points, so it is modelled as the list of
  its code points (the integers \<open>ord\<close> returns). ASCII literals of the source are written \<open>u ''...''\<close>; the few
  non-ASCII literals of the source (the Chinese markers of the script format) are given
  by their code points.
\<close>

type_synonym ustr = "int list"

definition u :: "string \<Rightarrow> ustr" where
  "u s = map of_char s"

text \<open>Python truthiness of an \<open>Optional[str]\<close>: \<open>None\<close> and \<open>''\<close> are falsy.\<close>

fun truthy :: "ustr option \<Rightarrow> bool" where
  "truthy None = False"
| "truthy (Some s) = (s \<noteq> [])"

text \<open>
  \<open>str.isspace\<close> for one character, which is also the class \<open>\s\<close> of \<open>re\<close> on a
  \<open>str\<close> pattern: the code points Python 3 treats as whitespace.
\<close>

definition isspace :: "int \<Rightarrow> bool" where
  "isspace c = (c \<in> set [9, 10, 11, 12, 13, 28, 29, 30, 31, 32, 133, 160, 5760,
      8192, 8193, 8194, 8195, 8196, 8197, 8198, 8199, 8200, 8201, 8202,
      8232, 8233, 8239, 8287, 12288])"


definition strip :: "ustr \<Rightarrow> ustr" where
  "strip s = rev (dropWhile isspace (rev (dropWhile isspace s)))"

text \<open>\<open>str(n)\<close> and \<open>int(s)\<close> for a non-negative decimal number.\<close>

fun str_of_nat :: "nat \<Rightarrow> ustr" where
  "str_of_nat n =
     (if n < 10 then [48 + int n] else str_of_nat (n div 10) @ [48 + int (n mod 10)])"

declare str_of_nat.simps [simp del]



definition startswith :: "ustr \<Rightarrow> ustr \<Rightarrow> bool" where
  "startswith s p = (take (length p) s = p)"

definition endswith :: "ustr \<Rightarrow> ustr \<Rightarrow> bool" where
  "endswith s p = (length p \<le> length s \<and> drop (length s - length p) s = p)"

section \<open>Regular expressions as \<open>re\<close> matches them\<close>




text \<open>
  A position of the matcher: the offset \<open>pos\<close>, the character before it (\<open>None\<close> at
  offset 0), the text still ahead, and the groups captured so far (number, text).
\<close>

record mstate =
  pos :: nat
  prev :: "int option"
  rest :: ustr
  groups :: "(nat \<times> ustr) list"

definition start_state :: "ustr \<Rightarrow> mstate" where
  "start_state s = \<lparr>pos = 0, prev = None, rest = s, groups = []\<rparr>"


















section \<open>The script parser (\<open>utils/script_parser.py\<close>)\<close>

record ScriptSegment =
  segment_id :: ustr
  time_range :: ustr
  content :: ustr
  is_first :: bool
  is_last :: bool
  is_frame_0 :: bool














section \<open>Tables and the store\<close>

text \<open>
  \<open>KeyframeStatus\<close> and \<open>VideoStatus\<close> are two enumerations with the same four
  members; one datatype stands for both.
\<close>

datatype Status = PENDING | GENERATING | COMPLETED | FAILED

text \<open>
  The exceptions the request handlers raise synchronously: \<open>NotFoundError\<close> and
  \<open>ValidationError\<close> of \<open>utils/exceptions.py\<close>, each with what its message says.
\<close>

datatype detail =
    ScriptMissing nat
  | ScriptEmpty
  | NoSegmentsFound
  | NoBodySegments
  | NoCompletedKeyframes
  | NoBodyKeyframes
  | FirstFrameMissing ustr

datatype ApiError = NotFoundError detail | ValidationError detail

text \<open>
  The exceptions of the generation services, which the background jobs catch; a job
  stores \<open>str(e)\<close> as the error message of its row. The other stored message is the one
  the stale check writes.
\<close>

datatype vendor = NanoBanana | SoraImage | JiMeng | SoraVideo | Veo

datatype exn =
    KeyNotConfigured
  | UnsupportedModel ustr
  | SubmitRejected vendor "ustr option"
  | PollRejected vendor "ustr option"
  | NoUrlReturned
  | GenerationFailed "ustr option"
  | GenerationTimeout vendor
  | TaskIdMissing
  | TaskNotFound
  | TaskExpired
  | TaskStatusUnknown "ustr option"
  | HTTPStatusError nat
  | RequestError
  | HttpErrorText nat
  | RequestErrorText
  | KeyError
  | UploadError

datatype message = StaleTimeout | ErrorText exn

text \<open>Times are microseconds since the epoch, as \<open>datetime\<close> counts them.\<close>

record Script =
  s_id :: nat
  s_content :: ustr

record Keyframe =
  kf_id :: nat
  kf_script_id :: nat
  kf_segment_id :: ustr
  kf_image_url :: "ustr option"
  kf_prompt :: "ustr option"
  kf_status :: Status
  kf_error_message :: "message option"
  kf_created_at :: int
  kf_updated_at :: "int option"

record VideoSegment =
  vs_id :: nat
  vs_script_id :: nat
  vs_segment_index :: nat
  vs_first_frame_url :: "ustr option"
  vs_last_frame_url :: "ustr option"
  vs_prompt :: "ustr option"
  vs_video_url :: "ustr option"
  vs_model :: ustr
  vs_aspect_ratio :: ustr
  vs_status :: Status
  vs_duration :: rat
  vs_error_message :: "message option"
  vs_created_at :: int
  vs_updated_at :: "int option"

text \<open>
  The database: each table is the list of its rows in insertion order, with the next
  primary key the table hands out.
\<close>

record store =
  scripts :: "Script list"
  keyframes :: "Keyframe list"
  video_segments :: "VideoSegment list"
  next_keyframe_id :: nat
  next_video_segment_id :: nat

section \<open>Keyframe generation requests (\<open>KeyframeService.generate_keyframes\<close>)\<close>




section \<open>Video generation requests (\<open>VideoService.generate_videos\<close>)\<close>

text \<open>
  The query for the completed keyframes of a script, \<open>ORDER BY segment_id\<close>. The
  database compares the ids as strings; the model takes the order of the code points,
  shorter strings first among those with a common prefix.
\<close>

definition completed_keyframes :: "store \<Rightarrow> nat \<Rightarrow> Keyframe list" where
  "completed_keyframes db script_id =
     sort_key kf_segment_id
       (filter (\<lambda>k. kf_script_id k = script_id \<and> kf_status k = COMPLETED) (keyframes db))"

text \<open>A dict comprehension \<open>{key(x): x for x in xs}\<close>: a later entry replaces an earlier one.\<close>

definition dict_by :: "('a \<Rightarrow> 'k) \<Rightarrow> 'a list \<Rightarrow> 'k \<rightharpoonup> 'a" where
  "dict_by key xs = foldl (\<lambda>m x. m(key x \<mapsto> x)) Map.empty xs"

text \<open>The body keyframes: those whose id ends neither in \<open>_first_frame\<close> nor in \<open>_last_frame\<close>.\<close>

definition is_normal_segment :: "Keyframe \<Rightarrow> bool" where
  "is_normal_segment kf =
     (\<not> endswith (kf_segment_id kf) (u ''_first_frame'') \<and>
      \<not> endswith (kf_segment_id kf) (u ''_last_frame''))"

text \<open>\<open>kf.prompt or ''\<close>.\<close>

definition prompt_or_empty :: "Keyframe \<Rightarrow> ustr" where
  "prompt_or_empty kf = (case kf_prompt kf of None \<Rightarrow> [] | Some p \<Rightarrow> p)"

record video_config =
  cfg_segment_index :: nat
  cfg_first_frame_url :: "ustr option"
  cfg_last_frame_url :: "ustr option"
  cfg_prompt :: ustr

text \<open>
  The loop \<open>for i in range(len(normal_segments) - 1)\<close>, which pairs each body keyframe
  with the next one; \<open>idx\<close> is the running \<open>segment_index\<close>.
\<close>

fun chain_configs :: "nat \<Rightarrow> Keyframe list \<Rightarrow> video_config list" where
  "chain_configs idx (current_segment # next_segment # others) =
     \<lparr>cfg_segment_index = idx,
      cfg_first_frame_url = kf_image_url current_segment,
      cfg_last_frame_url = kf_image_url next_segment,
      cfg_prompt = prompt_or_empty next_segment\<rparr>
     # chain_configs (Suc idx) (next_segment # others)"
| "chain_configs idx [current_segment] = []"
| "chain_configs idx [] = []"

definition new_video_segment ::
  "int \<Rightarrow> nat \<Rightarrow> ustr \<Rightarrow> ustr \<Rightarrow> rat \<Rightarrow> nat \<times> video_config \<Rightarrow> VideoSegment" where
  "new_video_segment now script_id model aspect_ratio duration row =
     (case row of (vid, config) \<Rightarrow>
        \<lparr>vs_id = vid, vs_script_id = script_id,
         vs_segment_index = cfg_segment_index config,
         vs_first_frame_url = cfg_first_frame_url config,
         vs_last_frame_url = cfg_last_frame_url config,
         vs_prompt = Some (cfg_prompt config),
         vs_video_url = None, vs_model = model, vs_aspect_ratio = aspect_ratio,
         vs_status = GENERATING, vs_duration = duration, vs_error_message = None,
         vs_created_at = now, vs_updated_at = Some now\<rparr>)"

text \<open>
  The request. The old video segments of the script are deleted, and the deletion
  committed, right after the script is found: before the keyframes are loaded. Every
  later exception therefore leaves the store without them.
\<close>

definition generate_videos ::
  "store \<Rightarrow> int \<Rightarrow> nat \<Rightarrow> ustr \<Rightarrow> ustr \<Rightarrow> rat \<Rightarrow> store \<times> (ApiError + VideoSegment list)" where
  "generate_videos db now script_id model aspect_ratio duration =
     (case find (\<lambda>s. s_id s = script_id) (scripts db) of
        None \<Rightarrow> (db, Inl (NotFoundError (ScriptMissing script_id)))
      | Some script \<Rightarrow>
          let db1 = db\<lparr>video_segments :=
                      filter (\<lambda>v. vs_script_id v \<noteq> script_id) (video_segments db)\<rparr>;
              kfs = completed_keyframes db1 script_id
          in if kfs = [] then (db1, Inl (ValidationError NoCompletedKeyframes))
             else
               let keyframe_map = dict_by kf_segment_id kfs;
                   normal_segments = filter is_normal_segment kfs
               in if normal_segments = [] then (db1, Inl (ValidationError NoBodyKeyframes))
                  else
                    let first_segment = hd normal_segments;
                        first_frame_key = kf_segment_id first_segment @ u ''_first_frame''
                    in (case keyframe_map first_frame_key of
                          None \<Rightarrow>
                            (db1, Inl (ValidationError (FirstFrameMissing first_frame_key)))
                        | Some first_frame \<Rightarrow>
                            let video_configs =
                                  \<lparr>cfg_segment_index = 0,
                                   cfg_first_frame_url = kf_image_url first_frame,
                                   cfg_last_frame_url = kf_image_url first_segment,
                                   cfg_prompt = prompt_or_empty first_segment\<rparr>
                                  # chain_configs 1 normal_segments;
                                ids = [next_video_segment_id db1 ..<
                                       next_video_segment_id db1 + length video_configs];
                                rows = map (new_video_segment now script_id model
                                              aspect_ratio duration) (zip ids video_configs)
                            in (db1\<lparr>video_segments := video_segments db1 @ rows,
                                    next_video_segment_id :=
                                      next_video_segment_id db1 + length video_configs\<rparr>,
                                Inr rows)))"

section \<open>Reading the rows of a script\<close>

text \<open>
  \<open>KeyframeService._refresh_stale_keyframes\<close>, for one row: a keyframe that is still
  \<open>generating\<close> and was last updated more than five minutes ago is marked failed with
  the timeout message; the update stamps the row with the current time. A row with another
  status or without a time stamp is skipped.
\<close>

definition STALE_KEYFRAME_TIMEOUT :: int where
  "STALE_KEYFRAME_TIMEOUT = 5 * 60 * 1000000"

definition refresh_stale_keyframe :: "int \<Rightarrow> Keyframe \<Rightarrow> Keyframe" where
  "refresh_stale_keyframe now keyframe =
     (if kf_status keyframe \<noteq> GENERATING \<or> kf_updated_at keyframe = None then keyframe
      else if now - the (kf_updated_at keyframe) > STALE_KEYFRAME_TIMEOUT then
        keyframe\<lparr>kf_status := FAILED, kf_error_message := Some StaleTimeout,
                 kf_updated_at := Some now\<rparr>
      else keyframe)"



section \<open>The generation vendors\<close>

text \<open>
  A request body is a JSON object; a call of a generation service is observed as the
  list of its events: the requests it posts (URL and body) and the times it sleeps, in
  seconds.
\<close>

datatype json = JStr ustr | JInt int | JBool bool | JList "json list"

type_synonym payload = "(ustr \<times> json) list"

datatype event = Sleep nat | Post ustr payload

text \<open>The waits of a call, in order: one before each poll.\<close>

fun sleeps :: "event list \<Rightarrow> nat list" where
  "sleeps [] = []"
| "sleeps (Sleep n # events) = n # sleeps events"
| "sleeps (Post url body # events) = sleeps events"

text \<open>
  The replies of the vendor behind \<open>base_url\<close>, which serves Nano Banana, Sora and Veo:
  the reply to a submission (\<open>code\<close>, \<open>msg\<close>, \<open>data.id\<close>) and the reply to a poll of
  \<open>/v1/draw/result\<close> (\<open>code\<close>, \<open>msg\<close>, and \<open>data\<close> with \<open>status\<close>, the \<open>url\<close> of each
  entry of \<open>results\<close>, \<open>url\<close>, \<open>error\<close>, \<open>failure_reason\<close>). A missing field is \<open>None\<close>.
\<close>

record submit_reply =
  sr_code :: "int option"
  sr_msg :: "ustr option"
  sr_task_id :: "ustr option"

record poll_data =
  pd_status :: "ustr option"
  pd_results :: "ustr option list"
  pd_url :: "ustr option"
  pd_error :: "ustr option"
  pd_failure_reason :: "ustr option"

record poll_reply =
  pr_code :: "int option"
  pr_msg :: "ustr option"
  pr_data :: "poll_data option"

text \<open>
  The vendor itself is a parameter: what it answers to a submission (by URL and body),
  and what it answers to the \<open>i\<close>-th poll of a task. An answer is an exception when the
  request fails (\<open>raise_for_status\<close>, a network error) and a reply otherwise.
\<close>

record grsai =
  base_url :: ustr
  grsai_submit :: "ustr \<Rightarrow> payload \<Rightarrow> exn + submit_reply"
  grsai_result :: "ustr \<Rightarrow> nat \<Rightarrow> exn + poll_reply"

definition draw_result_url :: "grsai \<Rightarrow> ustr" where
  "draw_result_url api = base_url api @ u ''/v1/draw/result''"

definition poll_events :: "grsai \<Rightarrow> nat \<Rightarrow> ustr \<Rightarrow> event list" where
  "poll_events api interval task_id =
     [Sleep interval, Post (draw_result_url api) [(u ''id'', JStr task_id)]]"

definition empty_data :: poll_data where
  "empty_data = \<lparr>pd_status = None, pd_results = [], pd_url = None, pd_error = None,
                  pd_failure_reason = None\<rparr>"

text \<open>
  The \<open>except\<close> clauses of the two image calls turn an HTTP status error and a request
  error into plain exceptions with a message and re-raise everything else.
\<close>

fun reraise :: "exn \<Rightarrow> exn" where
  "reraise (HTTPStatusError n) = HttpErrorText n"
| "reraise RequestError = RequestErrorText"
| "reraise e = e"

subsection \<open>Nano Banana images\<close>

text \<open>
  What one poll of a Nano Banana task makes of the answer: \<open>Some\<close> outcome ends the
  call (an exception, or the URL of the first result), \<open>None\<close> keeps polling.
\<close>

definition failure_text :: "poll_data \<Rightarrow> ustr option" where
  "failure_text d = (if truthy (pd_failure_reason d) then pd_failure_reason d else pd_error d)"

definition nano_banana_poll :: "exn + poll_reply \<Rightarrow> (exn + ustr option) option" where
  "nano_banana_poll answer =
     (case answer of
        Inl e \<Rightarrow> Some (Inl e)
      | Inr poll_result \<Rightarrow>
          if pr_code poll_result \<noteq> Some 0 then
            Some (Inl (PollRejected NanoBanana (pr_msg poll_result)))
          else
            let d = (case pr_data poll_result of None \<Rightarrow> empty_data | Some d \<Rightarrow> d) in
            if pd_status d = Some (u ''succeeded'') then
              (case pd_results d of
                 [] \<Rightarrow> Some (Inl NoUrlReturned)
               | image_url # _ \<Rightarrow> Some (Inr image_url))
            else if pd_status d = Some (u ''failed'') then
              Some (Inl (GenerationFailed (failure_text d)))
            else None)"

text \<open>The loop \<open>for i in range(max_polls)\<close> with its final timeout.\<close>

fun nano_banana_polls :: "grsai \<Rightarrow> ustr \<Rightarrow> nat list \<Rightarrow> (exn + ustr option) \<times> event list" where
  "nano_banana_polls api task_id [] = (Inl (GenerationTimeout NanoBanana), [])"
| "nano_banana_polls api task_id (i # later) =
     (case nano_banana_poll (grsai_result api task_id i) of
        Some outcome \<Rightarrow> (outcome, poll_events api 2 task_id)
      | None \<Rightarrow>
          (case nano_banana_polls api task_id later of
             (outcome, events) \<Rightarrow> (outcome, poll_events api 2 task_id @ events)))"

text \<open>
  The service of \<open>volc_jimeng_service.py\<close>: its credentials, and what the vendor
  answers to a submission (by body) and to the \<open>i\<close>-th query of a task. A reply carries
  \<open>code\<close>, \<open>message\<close> and, in \<open>data\<close>, \<open>task_id\<close>, \<open>status\<close> and \<open>image_urls\<close>.
\<close>

record jimeng_reply =
  jr_code :: "int option"
  jr_message :: "ustr option"
  jr_task_id :: "ustr option"
  jr_status :: "ustr option"
  jr_image_urls :: "ustr list"

record VolcJiMengService =
  access_key_id :: ustr
  secret_access_key :: ustr
  volc_base_url :: ustr
  volc_submit :: "payload \<Rightarrow> exn + jimeng_reply"
  volc_query :: "ustr \<Rightarrow> nat \<Rightarrow> exn + jimeng_reply"

record ImageGenerationService =
  api_key :: "ustr option"
  image_api :: grsai
  volc_jimeng_service :: VolcJiMengService

definition generate_image_nano_banana ::
  "ImageGenerationService \<Rightarrow> ustr \<Rightarrow> ustr \<Rightarrow> ustr \<Rightarrow> ustr option
     \<Rightarrow> (exn + ustr option) \<times> event list" where
  "generate_image_nano_banana svc prompt model aspect_ratio reference_image_url =
     (if \<not> truthy (api_key svc) then (Inl KeyNotConfigured, [])
      else
        let api = image_api svc;
            url = base_url api @ u ''/v1/draw/nano-banana'';
            payload = [(u ''model'', JStr model), (u ''prompt'', JStr prompt),
                       (u ''aspectRatio'', JStr aspect_ratio), (u ''webHook'', JStr (u ''-1'')),
                       (u ''shutProgress'', JBool False)]
                      @ (if truthy reference_image_url
                         then [(u ''urls'', JList [JStr (the reference_image_url)])] else [])
        in (case grsai_submit api url payload of
              Inl e \<Rightarrow> (Inl (reraise e), [Post url payload])
            | Inr result \<Rightarrow>
                if sr_code result \<noteq> Some 0 then
                  (Inl (SubmitRejected NanoBanana (sr_msg result)), [Post url payload])
                else
                  (case sr_task_id result of
                     None \<Rightarrow> (Inl KeyError, [Post url payload])
                   | Some task_id \<Rightarrow>
                       (case nano_banana_polls api task_id [0..<60] of
                          (Inl e, events) \<Rightarrow> (Inl (reraise e), Post url payload # events)
                        | (Inr image_url, events) \<Rightarrow>
                            (Inr image_url, Post url payload # events)))))"

subsection \<open>Sora images\<close>

definition sora_image_poll :: "exn + poll_reply \<Rightarrow> (exn + ustr option) option" where
  "sora_image_poll answer =
     (case answer of
        Inl e \<Rightarrow> Some (Inl e)
      | Inr poll_result \<Rightarrow>
          if pr_code poll_result \<noteq> Some 0 then
            Some (Inl (PollRejected SoraImage (pr_msg poll_result)))
          else
            let d = (case pr_data poll_result of None \<Rightarrow> empty_data | Some d \<Rightarrow> d) in
            if pd_status d = Some (u ''succeeded'') then
              (case pd_results d of
                 [] \<Rightarrow> (if truthy (pd_url d) then Some (Inr (pd_url d))
                         else Some (Inl NoUrlReturned))
               | image_url # _ \<Rightarrow> Some (Inr image_url))
            else if pd_status d = Some (u ''failed'') then
              Some (Inl (GenerationFailed (failure_text d)))
            else None)"

fun sora_image_polls :: "grsai \<Rightarrow> ustr \<Rightarrow> nat list \<Rightarrow> (exn + ustr option) \<times> event list" where
  "sora_image_polls api task_id [] = (Inl (GenerationTimeout SoraImage), [])"
| "sora_image_polls api task_id (i # later) =
     (case sora_image_poll (grsai_result api task_id i) of
        Some outcome \<Rightarrow> (outcome, poll_events api 2 task_id)
      | None \<Rightarrow>
          (case sora_image_polls api task_id later of
             (outcome, events) \<Rightarrow> (outcome, poll_events api 2 task_id @ events)))"

text \<open>The sizes Sora Image knows; any other aspect ratio becomes \<open>auto\<close>.\<close>

definition sora_size :: "ustr \<Rightarrow> ustr" where
  "sora_size aspect_ratio =
     (case map_of [(u ''auto'', u ''auto''), (u ''1:1'', u ''1:1''), (u ''3:2'', u ''3:2''),
                   (u ''2:3'', u ''2:3''), (u ''16:9'', u ''3:2''), (u ''9:16'', u ''2:3'')]
             aspect_ratio of
        None \<Rightarrow> u ''auto'' | Some sz \<Rightarrow> sz)"

definition generate_image_sora ::
  "ImageGenerationService \<Rightarrow> ustr \<Rightarrow> ustr \<Rightarrow> (exn + ustr option) \<times> event list" where
  "generate_image_sora svc prompt aspect_ratio =
     (if \<not> truthy (api_key svc) then (Inl KeyNotConfigured, [])
      else
        let api = image_api svc;
            url = base_url api @ u ''/v1/draw/completions'';
            payload = [(u ''model'', JStr (u ''sora-image'')), (u ''prompt'', JStr prompt),
                       (u ''size'', JStr (sora_size aspect_ratio)), (u ''variants'', JInt 1),
                       (u ''webHook'', JStr (u ''-1'')), (u ''shutProgress'', JBool False)]
        in (case grsai_submit api url payload of
              Inl e \<Rightarrow> (Inl (reraise e), [Post url payload])
            | Inr result \<Rightarrow>
                if sr_code result \<noteq> Some 0 then
                  (Inl (SubmitRejected SoraImage (sr_msg result)), [Post url payload])
                else
                  (case sr_task_id result of
                     None \<Rightarrow> (Inl KeyError, [Post url payload])
                   | Some task_id \<Rightarrow>
                       (case sora_image_polls api task_id [0..<60] of
                          (Inl e, events) \<Rightarrow> (Inl (reraise e), Post url payload # events)
                        | (Inr image_url, events) \<Rightarrow>
                            (Inr image_url, Post url payload # events)))))"

subsection \<open>Jimeng images (\<open>VolcJiMengService.generate_image\<close>)\<close>

text \<open>
  One query of a Jimeng task. The statuses \<open>in_queue\<close> and \<open>generating\<close> keep
  polling; \<open>done\<close> ends the call with the first image or an exception; every other
  status is an exception.
\<close>

definition jimeng_poll :: "exn + jimeng_reply \<Rightarrow> (exn + ustr) option" where
  "jimeng_poll answer =
     (case answer of
        Inl e \<Rightarrow> Some (Inl e)
      | Inr query_result \<Rightarrow>
          if jr_status query_result = Some (u ''done'') then
            (if jr_code query_result \<noteq> Some 10000 then
               Some (Inl (GenerationFailed (jr_message query_result)))
             else (case jr_image_urls query_result of
                     [] \<Rightarrow> Some (Inl NoUrlReturned)
                   | image_url # _ \<Rightarrow> Some (Inr image_url)))
          else if jr_status query_result = Some (u ''in_queue'')
                  \<or> jr_status query_result = Some (u ''generating'') then None
          else if jr_status query_result = Some (u ''not_found'') then Some (Inl TaskNotFound)
          else if jr_status query_result = Some (u ''expired'') then Some (Inl TaskExpired)
          else Some (Inl (TaskStatusUnknown (jr_status query_result))))"

definition jimeng_query_events :: "VolcJiMengService \<Rightarrow> ustr \<Rightarrow> event list" where
  "jimeng_query_events volc task_id =
     [Sleep 2, Post (volc_base_url volc @ u ''/'')
                 [(u ''req_key'', JStr (u ''jimeng_t2i_v40'')), (u ''task_id'', JStr task_id)]]"

fun jimeng_polls :: "VolcJiMengService \<Rightarrow> ustr \<Rightarrow> nat list \<Rightarrow> (exn + ustr) \<times> event list" where
  "jimeng_polls volc task_id [] = (Inl (GenerationTimeout JiMeng), [])"
| "jimeng_polls volc task_id (i # later) =
     (case jimeng_poll (volc_query volc task_id i) of
        Some outcome \<Rightarrow> (outcome, jimeng_query_events volc task_id)
      | None \<Rightarrow>
          (case jimeng_polls volc task_id later of
             (outcome, events) \<Rightarrow> (outcome, jimeng_query_events volc task_id @ events)))"

definition jimeng_generate_image ::
  "VolcJiMengService \<Rightarrow> ustr \<Rightarrow> int \<times> int \<Rightarrow> ustr list option \<Rightarrow> (exn + ustr) \<times> event list" where
  "jimeng_generate_image volc prompt dims reference_image_urls =
     (if access_key_id volc = [] \<or> secret_access_key volc = [] then (Inl KeyNotConfigured, [])
      else
        let url = volc_base_url volc @ u ''/'';
            body = [(u ''req_key'', JStr (u ''jimeng_t2i_v40'')), (u ''prompt'', JStr prompt),
                    (u ''force_single'', JBool True)]
                   @ (case reference_image_urls of
                        None \<Rightarrow> []
                      | Some urls \<Rightarrow>
                          if urls = [] then []
                          else [(u ''image_urls'', JList (map JStr (take 6 urls)))])
                   @ [(u ''width'', JInt (fst dims)), (u ''height'', JInt (snd dims))]
        in (case volc_submit volc body of
              Inl e \<Rightarrow> (Inl e, [Post url body])
            | Inr result \<Rightarrow>
                if jr_code result \<noteq> Some 10000 then
                  (Inl (SubmitRejected JiMeng (jr_message result)), [Post url body])
                else if \<not> truthy (jr_task_id result) then (Inl TaskIdMissing, [Post url body])
                else
                  (case jimeng_polls volc (the (jr_task_id result)) [0..<30] of
                     (outcome, events) \<Rightarrow> (outcome, Post url body # events))))"

text \<open>
  \<open>ImageGenerationService.generate_image_jimeng\<close>: the size is the base size of the
  aspect ratio (1024 x 1024 for an unknown one) times the multiplier of the quality (1,
  3/2 or 2; 1 for an unknown or missing quality), rounded down.
\<close>

definition quality_multiplier :: "ustr option \<Rightarrow> int \<times> int" where
  "quality_multiplier quality =
     (if \<not> truthy quality then (1, 1)
      else (case map_of [(u ''1K'', (1, 1)), (u ''2K'', (3, 2)), (u ''4K'', (2, 1))] (the quality) of
              None \<Rightarrow> (1, 1) | Some m \<Rightarrow> m))"

definition base_size :: "ustr \<Rightarrow> int \<times> int" where
  "base_size aspect_ratio =
     (case map_of [(u ''1:1'', (1024, 1024)), (u ''16:9'', (1920, 1080)),
                   (u ''9:16'', (1080, 1920)), (u ''4:3'', (1024, 768)),
                   (u ''3:4'', (768, 1024)), (u ''3:2'', (1536, 1024)),
                   (u ''2:3'', (1024, 1536)), (u ''5:4'', (1280, 1024)),
                   (u ''4:5'', (1024, 1280)), (u ''21:9'', (2560, 1080))] aspect_ratio of
        None \<Rightarrow> (1024, 1024) | Some wh \<Rightarrow> wh)"

definition generate_image_jimeng ::
  "ImageGenerationService \<Rightarrow> ustr \<Rightarrow> ustr \<Rightarrow> ustr option \<Rightarrow> ustr option
     \<Rightarrow> (exn + ustr option) \<times> event list" where
  "generate_image_jimeng svc prompt aspect_ratio quality reference_image_url =
     (let multiplier = quality_multiplier quality;
          base = base_size aspect_ratio;
          width = (fst base * fst multiplier) div snd multiplier;
          height = (snd base * fst multiplier) div snd multiplier;
          reference_images =
            (if truthy reference_image_url then Some [the reference_image_url] else None)
      in (case jimeng_generate_image (volc_jimeng_service svc) prompt (width, height)
                reference_images of
            (Inl e, events) \<Rightarrow> (Inl e, events)
          | (Inr image_url, events) \<Rightarrow> (Inr (Some image_url), events)))"

subsection \<open>\<open>ImageGenerationService.generate_image\<close>\<close>

text \<open>
  The call every keyframe job makes: the model name selects the vendor. The result is
  the \<open>url\<close> entry of the returned dict, which may be missing.
\<close>

definition generate_image ::
  "ImageGenerationService \<Rightarrow> ustr \<Rightarrow> ustr \<Rightarrow> ustr \<Rightarrow> ustr option \<Rightarrow> ustr option
     \<Rightarrow> (exn + ustr option) \<times> event list" where
  "generate_image svc prompt model aspect_ratio quality reference_image_url =
     (if model = u ''jimeng_t2i_v40'' then
        generate_image_jimeng svc prompt aspect_ratio quality reference_image_url
      else if model = u ''nano-banana-fast'' \<or> model = u ''nano-banana'' then
        generate_image_nano_banana svc prompt model aspect_ratio reference_image_url
      else if model = u ''sora-image'' then
        generate_image_sora svc prompt aspect_ratio
      else (Inl (UnsupportedModel model), []))"

section \<open>Video vendors (\<open>VideoService._call_video_generation_api\<close>)\<close>


record VideoService =
  video_api_key :: "ustr option"
  video_api :: grsai












section \<open>Background jobs\<close>

text \<open>
  What a job reaches outside the store: the two generation services, the download of a
  generated image (\<open>None\<close> when the GET succeeds), and \<open>oss_service.upload_from_url\<close>
  (source URL, file name, category), which returns the URL of the stored copy.
\<close>

record services =
  image_generation_service :: ImageGenerationService
  video_service :: VideoService
  http_get :: "ustr \<Rightarrow> exn option"
  upload_from_url :: "ustr \<Rightarrow> ustr \<Rightarrow> ustr \<Rightarrow> exn + ustr"

text \<open>\<open>str.replace(old, new)\<close> for a non-empty \<open>old\<close>.\<close>

function str_replace :: "ustr \<Rightarrow> ustr \<Rightarrow> ustr \<Rightarrow> ustr" where
  "str_replace old new s =
     (if s = [] \<or> old = [] then s
      else if startswith s old then new @ str_replace old new (drop (length old) s)
      else hd s # str_replace old new (tl s))"
  by pat_completeness auto
termination
  by (relation "measure (\<lambda>(old, new, s). length s)") auto

declare str_replace.simps [simp del]

text \<open>
  \<open>extract_prompt_for_segment\<close> of the parser: the segment's text, with three
  key words (opening picture, first frame, initial scene) appended for the first frame
  of the first segment.
\<close>

definition extract_prompt_for_segment :: "ScriptSegment \<Rightarrow> bool \<Rightarrow> ustr" where
  "extract_prompt_for_segment segment is_first_frame =
     strip (if is_first_frame \<and> is_first segment
            then content segment @ [32, 24320, 22330, 30011, 38754, 65292, 31532, 19968,
                                    24103, 65292, 21021, 22987, 22330, 26223]
            else content segment)"

definition update_keyframe :: "store \<Rightarrow> nat \<Rightarrow> (Keyframe \<Rightarrow> Keyframe) \<Rightarrow> store" where
  "update_keyframe db keyframe_id f =
     db\<lparr>keyframes := map (\<lambda>k. if kf_id k = keyframe_id then f k else k) (keyframes db)\<rparr>"


subsection \<open>The job of one keyframe\<close>

text \<open>
  The prompt of a keyframe job: the stored prompt; for a row without one, the text of the
  segment behind an id that ends in \<open>_first_frame\<close>, or the empty string.
\<close>

definition keyframe_job_prompt :: "Keyframe \<Rightarrow> (ustr \<rightharpoonup> ScriptSegment) \<Rightarrow> ustr" where
  "keyframe_job_prompt keyframe segment_map =
     (let is_old_first_frame = endswith (kf_segment_id keyframe) (u ''_first_frame'') in
      if truthy (kf_prompt keyframe) then the (kf_prompt keyframe)
      else if is_old_first_frame then
        (case segment_map (str_replace (u ''_first_frame'') [] (kf_segment_id keyframe)) of
           None \<Rightarrow> []
         | Some segment \<Rightarrow> extract_prompt_for_segment segment is_old_first_frame)
      else [])"

text \<open>
  What follows a generated image: an exception for a missing URL, the download, the
  upload under \<open>keyframe_<id>.jpg\<close>.
\<close>

definition store_keyframe_image :: "services \<Rightarrow> nat \<Rightarrow> exn + ustr option \<Rightarrow> exn + ustr" where
  "store_keyframe_image env keyframe_id result =
     (case result of
        Inl e \<Rightarrow> Inl e
      | Inr image_url \<Rightarrow>
          if \<not> truthy image_url then Inl NoUrlReturned
          else (case http_get env (the image_url) of
                  Some e \<Rightarrow> Inl e
                | None \<Rightarrow>
                    upload_from_url env (the image_url)
                      (u ''keyframe_'' @ str_of_nat keyframe_id @ u ''.jpg'') (u ''keyframes'')))"

text \<open>
  \<open>_generate_single_keyframe_image_with_session\<close>: the store after the job, the URL it
  returns (\<open>None\<close> on failure) and the events of its generation call. Every exception of
  the generation call, the download or the upload ends in the same handler, which marks
  the row failed with the text of the exception.
\<close>

definition generate_single_keyframe_image_with_session ::
  "services \<Rightarrow> store \<Rightarrow> int \<Rightarrow> nat \<Rightarrow> (ustr \<rightharpoonup> ScriptSegment) \<Rightarrow> ustr \<Rightarrow> ustr
     \<Rightarrow> ustr option \<Rightarrow> ustr option \<Rightarrow> store \<times> ustr option \<times> event list" where
  "generate_single_keyframe_image_with_session env db now keyframe_id segment_map model
       aspect_ratio quality reference_image_url =
     (case find (\<lambda>k. kf_id k = keyframe_id) (keyframes db) of
        None \<Rightarrow> (db, None, [])
      | Some keyframe \<Rightarrow>
          let prompt = keyframe_job_prompt keyframe segment_map in
          (case generate_image (image_generation_service env) prompt model aspect_ratio
                  quality reference_image_url of
             (result, events) \<Rightarrow>
               (case store_keyframe_image env keyframe_id result of
                  Inr oss_url \<Rightarrow>
                    (update_keyframe db keyframe_id
                       (\<lambda>k. k\<lparr>kf_image_url := Some oss_url, kf_prompt := Some prompt,
                               kf_status := COMPLETED, kf_error_message := None,
                               kf_updated_at := Some now\<rparr>),
                     Some oss_url, events)
                | Inl e \<Rightarrow>
                    (update_keyframe db keyframe_id
                       (\<lambda>k. k\<lparr>kf_status := FAILED, kf_error_message := Some (ErrorText e),
                               kf_updated_at := Some now\<rparr>),
                     None, events))))"

subsection \<open>The background task of a keyframe generation request\<close>

text \<open>
  A call of the keyframe job as the loop makes it: the keyframe, the reference image
  passed, and the URL returned.
\<close>

record job_call =
  call_keyframe_id :: nat
  call_reference :: "ustr option"
  call_result :: "ustr option"

text \<open>
  The loop of \<open>_generate_keyframes_background\<close> over \<open>enumerate(keyframe_ids)\<close>:
  \<open>previous_image_url\<close> is assigned when a job returns a URL and is left as it is when a
  job fails. \<open>clock i\<close> is the time at which job \<open>i\<close> commits.
\<close>

fun keyframes_loop ::
  "services \<Rightarrow> (ustr \<rightharpoonup> ScriptSegment) \<Rightarrow> ustr \<Rightarrow> ustr \<Rightarrow> ustr option \<Rightarrow> (nat \<Rightarrow> int)
     \<Rightarrow> store \<Rightarrow> ustr option \<Rightarrow> nat \<Rightarrow> nat list \<Rightarrow> store \<times> job_call list" where
  "keyframes_loop env segment_map model aspect_ratio quality clock db previous_image_url i [] =
     (db, [])"
| "keyframes_loop env segment_map model aspect_ratio quality clock db previous_image_url i
       (keyframe_id # later) =
     (case generate_single_keyframe_image_with_session env db (clock i) keyframe_id
             segment_map model aspect_ratio quality previous_image_url of
        (db', result_url, events) \<Rightarrow>
          (case keyframes_loop env segment_map model aspect_ratio quality clock db'
                  (if truthy result_url then result_url else previous_image_url)
                  (Suc i) later of
             (db'', calls) \<Rightarrow>
               (db'', \<lparr>call_keyframe_id = keyframe_id, call_reference = previous_image_url,
                       call_result = result_url\<rparr> # calls)))"

definition generate_keyframes_background ::
  "services \<Rightarrow> store \<Rightarrow> (nat \<Rightarrow> int) \<Rightarrow> nat list \<Rightarrow> ScriptSegment list \<Rightarrow> ustr \<Rightarrow> ustr
     \<Rightarrow> ustr option \<Rightarrow> store \<times> job_call list" where
  "generate_keyframes_background env db clock keyframe_ids segments model aspect_ratio quality =
     keyframes_loop env (dict_by segment_id segments) model aspect_ratio quality clock db
       None 0 keyframe_ids"

subsection \<open>The job of one video segment\<close>


section \<open>Example data\<close>

text \<open>
  A script with an opening frame and two time-stamped segments, a store that holds one
  script, and the segments as the parser builds them.
\<close>

definition example_script :: ustr where
  "example_script = [31532, 48, 24103, 65306] @ u ''open'' @ [10] @
     u ''(0:00 - 0:06) first'' @ [10] @ u ''(0:06 - 0:12) second''"




text \<open>
  Keyframes and video segments of script 1 for the examples: a keyframe with a given id,
  segment id and status, whose image URL and prompt are derived from the segment id; the
  keyframes of a script with an opening frame and \<open>n\<close> body segments, all completed, in
  creation order; an old video segment; and a store that holds script 1 with given rows.
\<close>

definition example_keyframe :: "nat \<Rightarrow> ustr \<Rightarrow> Status \<Rightarrow> Keyframe" where
  "example_keyframe kid seg_id st =
     \<lparr>kf_id = kid, kf_script_id = 1, kf_segment_id = seg_id,
      kf_image_url = Some (u ''https://oss/'' @ seg_id),
      kf_prompt = Some (u ''prompt of '' @ seg_id),
      kf_status = st, kf_error_message = None, kf_created_at = 0, kf_updated_at = Some 0\<rparr>"

definition chain_keyframes :: "nat \<Rightarrow> Keyframe list" where
  "chain_keyframes n =
     example_keyframe 1 (u ''segment_0_first_frame'') COMPLETED
     # map (\<lambda>i. example_keyframe (i + 2) (u ''segment_'' @ str_of_nat i) COMPLETED) [0..<n]"

definition old_video_segment :: VideoSegment where
  "old_video_segment =
     \<lparr>vs_id = 1, vs_script_id = 1, vs_segment_index = 0,
      vs_first_frame_url = Some (u ''https://oss/a''), vs_last_frame_url = Some (u ''https://oss/b''),
      vs_prompt = Some (u ''old''), vs_video_url = Some (u ''https://oss/v''),
      vs_model = u ''veo3.1-fast'', vs_aspect_ratio = u ''16:9'', vs_status = COMPLETED,
      vs_duration = 6, vs_error_message = None, vs_created_at = 0, vs_updated_at = Some 0\<rparr>"

definition video_store :: "Keyframe list \<Rightarrow> VideoSegment list \<Rightarrow> store" where
  "video_store kfs vss =
     \<lparr>scripts = [\<lparr>s_id = 1, s_content = example_script\<rparr>], keyframes = kfs,
      video_segments = vss, next_keyframe_id = 100, next_video_segment_id = 100\<rparr>"



text \<open>
  A vendor for the examples. It accepts every submission and names the task after the
  prompt. A poll of the task \<open>bad\<close> reports a failed generation, a poll of the task
  \<open>slow\<close> reports \<open>running\<close> for ever, and a poll of any other task reports success
  with a URL derived from the task.
\<close>

definition demo_task :: "payload \<Rightarrow> ustr option" where
  "demo_task body = (case map_of body (u ''prompt'') of Some (JStr p) \<Rightarrow> Some p | _ \<Rightarrow> None)"

definition demo_poll_data :: "ustr \<Rightarrow> poll_data" where
  "demo_poll_data task_id =
     (if task_id = u ''bad'' then
        \<lparr>pd_status = Some (u ''failed''), pd_results = [], pd_url = None,
         pd_error = Some (u ''rejected''), pd_failure_reason = None\<rparr>
      else if task_id = u ''slow'' then
        \<lparr>pd_status = Some (u ''running''), pd_results = [], pd_url = None,
         pd_error = None, pd_failure_reason = None\<rparr>
      else
        \<lparr>pd_status = Some (u ''succeeded''),
         pd_results = [Some (u ''https://vendor/'' @ task_id)],
         pd_url = Some (u ''https://vendor/'' @ task_id),
         pd_error = None, pd_failure_reason = None\<rparr>)"

definition demo_grsai :: grsai where
  "demo_grsai =
     \<lparr>base_url = u ''https://api'',
      grsai_submit = (\<lambda>url body. Inr \<lparr>sr_code = Some 0, sr_msg = None,
                                        sr_task_id = demo_task body\<rparr>),
      grsai_result = (\<lambda>task_id i. Inr \<lparr>pr_code = Some 0, pr_msg = None,
                                         pr_data = Some (demo_poll_data task_id)\<rparr>)\<rparr>"

definition demo_volc :: VolcJiMengService where
  "demo_volc =
     \<lparr>access_key_id = u ''id'', secret_access_key = u ''secret'',
      volc_base_url = u ''https://volc'',
      volc_submit = (\<lambda>body. Inr \<lparr>jr_code = Some 10000, jr_message = None,
                                   jr_task_id = demo_task body, jr_status = None,
                                   jr_image_urls = []\<rparr>),
      volc_query = (\<lambda>task_id i. Inr \<lparr>jr_code = Some 10000, jr_message = None,
                                       jr_task_id = None, jr_status = Some (u ''generating''),
                                       jr_image_urls = []\<rparr>)\<rparr>"

definition demo_services :: services where
  "demo_services =
     \<lparr>image_generation_service =
        \<lparr>api_key = Some (u ''key''), image_api = demo_grsai, volc_jimeng_service = demo_volc\<rparr>,
      video_service = \<lparr>video_api_key = Some (u ''key''), video_api = demo_grsai\<rparr>,
      http_get = (\<lambda>url. None),
      upload_from_url = (\<lambda>url filename category. Inr (u ''https://oss/'' @ filename))\<rparr>"

text \<open>A keyframe row as a generation request leaves it, with a given id and prompt.\<close>

definition pending_keyframe :: "nat \<Rightarrow> ustr \<Rightarrow> ustr \<Rightarrow> Keyframe" where
  "pending_keyframe kid seg_id prompt =
     \<lparr>kf_id = kid, kf_script_id = 1, kf_segment_id = seg_id, kf_image_url = None,
      kf_prompt = Some prompt, kf_status = GENERATING, kf_error_message = None,
      kf_created_at = 0, kf_updated_at = Some 0\<rparr>"

text \<open>
  Three keyframes in creation order; the vendor generates the first and the third and
  fails the second.
\<close>

definition three_keyframes :: store where
  "three_keyframes =
     video_store [pending_keyframe 1 (u ''segment_0_first_frame'') (u ''good''),
                  pending_keyframe 2 (u ''segment_0'') (u ''bad''),
                  pending_keyframe 3 (u ''segment_1'') (u ''fine'')] []"





section \<open>Properties of the parser\<close>

lemma u_Nil: "u [] = []"
  by (simp add: u_def)










section \<open>Properties of keyframe generation requests\<close>






section \<open>Properties of video generation requests\<close>

lemma completed_keyframes_video_segments [simp]:
  "completed_keyframes (db\<lparr>video_segments := vs\<rparr>) sid = completed_keyframes db sid"
  by (simp add: completed_keyframes_def)

lemma chain_configs_fields:
  "length (chain_configs idx ks) = length ks - 1 \<and>
   map cfg_segment_index (chain_configs idx ks) = [idx ..< idx + (length ks - 1)] \<and>
   map cfg_first_frame_url (chain_configs idx ks) = map kf_image_url (butlast ks) \<and>
   map cfg_last_frame_url (chain_configs idx ks) = map kf_image_url (tl ks) \<and>
   map cfg_prompt (chain_configs idx ks) = map prompt_or_empty (tl ks)"
  by (induction idx ks rule: chain_configs.induct) (auto simp: upt_rec)

lemma new_video_segment_fields:
  "length ids = length cfgs \<Longrightarrow>
   map vs_segment_index (map (new_video_segment now sid m a d) (zip ids cfgs)) = map cfg_segment_index cfgs \<and>
   map vs_first_frame_url (map (new_video_segment now sid m a d) (zip ids cfgs)) = map cfg_first_frame_url cfgs \<and>
   map vs_last_frame_url (map (new_video_segment now sid m a d) (zip ids cfgs)) = map cfg_last_frame_url cfgs \<and>
   map vs_prompt (map (new_video_segment now sid m a d) (zip ids cfgs)) = map (Some \<circ> cfg_prompt) cfgs \<and>
   (\<forall>r \<in> set (map (new_video_segment now sid m a d) (zip ids cfgs)).
      vs_status r = GENERATING \<and> vs_script_id r = sid \<and> vs_model r = m \<and> vs_video_url r = None)"
  by (induction ids cfgs rule: list_induct2) (auto simp: new_video_segment_def)

lemma generate_videos_rows:
  assumes script: "find (\<lambda>s. s_id s = script_id) (scripts db) = Some script"
    and body: "filter is_normal_segment (completed_keyframes db script_id) = body"
    and N: "body \<noteq> []"
    and first_frame: "dict_by kf_segment_id (completed_keyframes db script_id)
                        (kf_segment_id (hd body) @ u ''_first_frame'') = Some first_frame"
  shows "\<exists>db' rows.
           generate_videos db now script_id model aspect_ratio duration = (db', Inr rows) \<and>
           length rows = length body \<and>
           map vs_segment_index rows = [0 ..< length body] \<and>
           map vs_first_frame_url rows = kf_image_url first_frame # map kf_image_url (butlast body) \<and>
           map vs_last_frame_url rows = map kf_image_url body \<and>
           map vs_prompt rows = map (Some \<circ> prompt_or_empty) body \<and>
           (\<forall>r \<in> set rows. vs_status r = GENERATING \<and> vs_script_id r = script_id) \<and>
           filter (\<lambda>v. vs_script_id v = script_id) (video_segments db') = rows"
proof -
  define db1 where "db1 = db\<lparr>video_segments :=
      filter (\<lambda>v. vs_script_id v \<noteq> script_id) (video_segments db)\<rparr>"
  define cfgs where "cfgs = \<lparr>cfg_segment_index = 0,
      cfg_first_frame_url = kf_image_url first_frame,
      cfg_last_frame_url = kf_image_url (hd body),
      cfg_prompt = prompt_or_empty (hd body)\<rparr> # chain_configs 1 body"
  define ids where "ids = [next_video_segment_id db1 ..< next_video_segment_id db1 + length cfgs]"
  define rows where "rows = map (new_video_segment now script_id model aspect_ratio duration) (zip ids cfgs)"
  define db' where "db' = db1\<lparr>video_segments := video_segments db1 @ rows,
      next_video_segment_id := next_video_segment_id db1 + length cfgs\<rparr>"
  have kfs: "completed_keyframes db script_id \<noteq> []"
    using body N by auto
  have run: "generate_videos db now script_id model aspect_ratio duration = (db', Inr rows)"
    unfolding generate_videos_def Let_def
    using script kfs N first_frame
    by (simp add: body db'_def rows_def ids_def cfgs_def db1_def)
  have len: "length ids = length cfgs"
    by (simp add: ids_def)
  note fields = new_video_segment_fields [OF len, of now script_id model aspect_ratio duration,
      folded rows_def]
  note chain = chain_configs_fields [of 1 body]
  obtain b bs where b: "body = b # bs"
    using N by (cases body) auto
  have c1: "length rows = length body"
    using len chain by (simp add: rows_def cfgs_def b)
  have c2: "map vs_segment_index rows = [0 ..< length body]"
    using fields chain by (simp add: cfgs_def b upt_rec)
  have c3: "map vs_first_frame_url rows = kf_image_url first_frame # map kf_image_url (butlast body)"
    using fields chain by (simp add: cfgs_def)
  have c4: "map vs_last_frame_url rows = map kf_image_url body"
    using fields chain by (simp add: cfgs_def b)
  have "map (Some \<circ> cfg_prompt) (chain_configs 1 body) = map Some (map prompt_or_empty (tl body))"
    using chain by (metis map_map)
  then have c5: "map vs_prompt rows = map (Some \<circ> prompt_or_empty) body"
    using fields by (simp add: cfgs_def b)
  have c6: "\<forall>r \<in> set rows. vs_status r = GENERATING \<and> vs_script_id r = script_id"
    using fields by simp
  have c7: "filter (\<lambda>v. vs_script_id v = script_id) (video_segments db') = rows"
    using c6 by (simp add: db'_def db1_def filter_id_conv filter_empty_conv)
  show ?thesis
    apply (rule exI [of _ db'], rule exI [of _ rows])
    using run c1 c2 c3 c4 c5 c6 c7 by simp
qed

text \<open>
  Claim C2, as amended. For every stored script whose completed keyframes, in the order
  of their segment ids, hold N body keyframes with N at least 1 and the keyframe stored
  under the id of the first of them suffixed with \<open>_first_frame\<close>, a video generation
  request creates exactly N video-segment rows, all \<open>generating\<close>, with segment_index
  0..N-1; row 0's first frame is that opening keyframe's URL and row i's first frame is
  body keyframe i-1's URL; each row's last frame is body keyframe i's URL; each row's
  prompt is the prompt of its last-frame keyframe (the empty string if it has none).
  These rows are all the video segments the script has afterwards.
\<close>

theorem C2_video_rows:
  assumes script: "find (\<lambda>s. s_id s = script_id) (scripts db) = Some script"
    and body: "filter is_normal_segment (completed_keyframes db script_id) = body"
    and N: "body \<noteq> []"
    and first_frame: "dict_by kf_segment_id (completed_keyframes db script_id)
                        (kf_segment_id (hd body) @ u ''_first_frame'') = Some first_frame"
  shows "\<exists>db' rows.
           generate_videos db now script_id model aspect_ratio duration = (db', Inr rows) \<and>
           length rows = length body \<and>
           map vs_segment_index rows = [0 ..< length body] \<and>
           map vs_first_frame_url rows = kf_image_url first_frame # map kf_image_url (butlast body) \<and>
           map vs_last_frame_url rows = map kf_image_url body \<and>
           map vs_prompt rows = map (Some \<circ> prompt_or_empty) body \<and>
           (\<forall>r \<in> set rows. vs_status r = GENERATING \<and> vs_script_id r = script_id) \<and>
           filter (\<lambda>v. vs_script_id v = script_id) (video_segments db') = rows"
  by (rule generate_videos_rows [OF assms])

text \<open>The amended claim C2 at a script with an opening frame and three body keyframes.\<close>

theorem C2_witness:
  "\<exists>db' rows.
     generate_videos (video_store (chain_keyframes 3) []) 0 1 (u ''veo3.1-fast'') (u ''16:9'') 6
       = (db', Inr rows) \<and>
     length rows = 3 \<and>
     map vs_segment_index rows = [0, 1, 2] \<and>
     map vs_first_frame_url rows =
       [Some (u ''https://oss/segment_0_first_frame''), Some (u ''https://oss/segment_0''),
        Some (u ''https://oss/segment_1'')] \<and>
     map vs_last_frame_url rows =
       [Some (u ''https://oss/segment_0''), Some (u ''https://oss/segment_1''),
        Some (u ''https://oss/segment_2'')] \<and>
     map vs_prompt rows =
       [Some (u ''prompt of segment_0''), Some (u ''prompt of segment_1''),
        Some (u ''prompt of segment_2'')] \<and>
     (\<forall>r \<in> set rows. vs_status r = GENERATING \<and> vs_script_id r = 1) \<and>
     filter (\<lambda>v. vs_script_id v = 1) (video_segments db') = rows"
proof -
  let ?db = "video_store (chain_keyframes 3) []"
  let ?body = "[example_keyframe 2 (u ''segment_0'') COMPLETED,
                example_keyframe 3 (u ''segment_1'') COMPLETED,
                example_keyframe 4 (u ''segment_2'') COMPLETED]"
  have h1: "find (\<lambda>s. s_id s = 1) (scripts ?db) = Some \<lparr>s_id = 1, s_content = example_script\<rparr>"
    by (simp add: video_store_def)
  have h2: "filter is_normal_segment (completed_keyframes ?db 1) = ?body"
    by code_simp
  have h3: "?body \<noteq> []" by simp
  have h4: "dict_by kf_segment_id (completed_keyframes ?db 1)
              (kf_segment_id (hd ?body) @ u ''_first_frame'')
            = Some (example_keyframe 1 (u ''segment_0_first_frame'') COMPLETED)"
    by code_simp
  have e1: "length ?body = 3" by simp
  have e2: "[0 ..< 3] = [0, 1, 2::nat]" by code_simp
  have e3: "kf_image_url (example_keyframe 1 (u ''segment_0_first_frame'') COMPLETED) # map kf_image_url (butlast ?body)
      = [Some (u ''https://oss/segment_0_first_frame''), Some (u ''https://oss/segment_0''),
        Some (u ''https://oss/segment_1'')]"
    by code_simp
  have e4: "map kf_image_url ?body = [Some (u ''https://oss/segment_0''), Some (u ''https://oss/segment_1''),
        Some (u ''https://oss/segment_2'')]"
    by code_simp
  have e5: "map (Some \<circ> prompt_or_empty) ?body = [Some (u ''prompt of segment_0''), Some (u ''prompt of segment_1''),
        Some (u ''prompt of segment_2'')]"
    by code_simp
  from C2_video_rows [OF h1 h2 h3 h4, of 0 "u ''veo3.1-fast''" "u ''16:9''" 6] show ?thesis
    unfolding e1 e2 e3 e4 e5 .
qed

text \<open>
  Claim C2 as stated fails: when the keyframe of \<open>segment_0\<close> failed, the completed
  keyframes consist of the opening-frame keyframe (\<open>segment_0_first_frame\<close>) and one
  body keyframe (\<open>segment_1\<close>), yet the request creates no row: it looks for
  \<open>segment_1_first_frame\<close> and raises \<open>ValidationError\<close>.
\<close>

theorem C2_counterexample:
  "completed_keyframes
     (video_store [example_keyframe 1 (u ''segment_0_first_frame'') COMPLETED,
                   example_keyframe 2 (u ''segment_0'') FAILED,
                   example_keyframe 3 (u ''segment_1'') COMPLETED] []) 1
     = [example_keyframe 1 (u ''segment_0_first_frame'') COMPLETED,
        example_keyframe 3 (u ''segment_1'') COMPLETED] \<and>
   snd (generate_videos
     (video_store [example_keyframe 1 (u ''segment_0_first_frame'') COMPLETED,
                   example_keyframe 2 (u ''segment_0'') FAILED,
                   example_keyframe 3 (u ''segment_1'') COMPLETED] []) 0 1
        (u ''veo3.1-fast'') (u ''16:9'') 6)
     = Inl (ValidationError (FirstFrameMissing (u ''segment_1_first_frame''))) \<and>
   video_segments (fst (generate_videos
     (video_store [example_keyframe 1 (u ''segment_0_first_frame'') COMPLETED,
                   example_keyframe 2 (u ''segment_0'') FAILED,
                   example_keyframe 3 (u ''segment_1'') COMPLETED] []) 0 1
        (u ''veo3.1-fast'') (u ''16:9'') 6)) = []"
  by code_simp

text \<open>
  Claim C5, as amended. When a video generation request fails with \<open>ValidationError\<close>
  because the script has no completed keyframe, no generation starts and no row is
  created, but the stored state has changed: the script's video segments have been
  deleted, since the deletion is committed before the keyframes are loaded. Everything
  else in the store is as before.
\<close>

theorem C5_validation_error_after_delete:
  assumes "find (\<lambda>s. s_id s = script_id) (scripts db) = Some script"
    and "completed_keyframes db script_id = []"
  shows "generate_videos db now script_id model aspect_ratio duration =
           (db\<lparr>video_segments :=
                 filter (\<lambda>v. vs_script_id v \<noteq> script_id) (video_segments db)\<rparr>,
            Inl (ValidationError NoCompletedKeyframes))"
  using assms by (simp add: generate_videos_def Let_def)

text \<open>The amended claim C5 at a script with one old video segment and no keyframe.\<close>

theorem C5_witness:
  "generate_videos (video_store [] [old_video_segment]) 0 1 (u ''veo3.1-fast'') (u ''16:9'') 6 =
     (video_store [] [], Inl (ValidationError NoCompletedKeyframes))"
proof -
  let ?db = "video_store [] [old_video_segment]"
  have h1: "find (\<lambda>s. s_id s = 1) (scripts ?db) = Some \<lparr>s_id = 1, s_content = example_script\<rparr>"
    by (simp add: video_store_def)
  have h2: "completed_keyframes ?db 1 = []"
    by (simp add: completed_keyframes_def video_store_def)
  have e: "?db\<lparr>video_segments := filter (\<lambda>v. vs_script_id v \<noteq> 1) (video_segments ?db)\<rparr>
             = video_store [] []"
    by (simp add: video_store_def old_video_segment_def)
  from C5_validation_error_after_delete [OF h1 h2, of 0 "u ''veo3.1-fast''" "u ''16:9''" 6]
  show ?thesis unfolding e .
qed

text \<open>
  Claim C5 as stated fails: the script has one video segment and no completed keyframe;
  the request fails with \<open>ValidationError\<close> and the video segment is gone.
\<close>

theorem C5_counterexample:
  "video_segments (video_store [] [old_video_segment]) = [old_video_segment] \<and>
   snd (generate_videos (video_store [] [old_video_segment]) 0 1 (u ''veo3.1-fast'') (u ''16:9'') 6)
     = Inl (ValidationError NoCompletedKeyframes) \<and>
   video_segments (fst (generate_videos (video_store [] [old_video_segment]) 0 1
     (u ''veo3.1-fast'') (u ''16:9'') 6)) = []"
  by code_simp

text \<open>
  Claim C6, as amended. A video generation request for a stored script that has
  completed body keyframes but no completed keyframe under the id of the first of them
  suffixed with \<open>_first_frame\<close> fails synchronously with \<open>ValidationError\<close> (not
  \<open>NotFoundError\<close>), naming the missing id; and it fails with \<open>ValidationError\<close>
  when the script has no completed keyframe at all.
\<close>

theorem C6_missing_first_frame:
  assumes "find (\<lambda>s. s_id s = script_id) (scripts db) = Some script"
  shows "(completed_keyframes db script_id = [] \<longrightarrow>
            snd (generate_videos db now script_id model aspect_ratio duration)
              = Inl (ValidationError NoCompletedKeyframes)) \<and>
         (filter is_normal_segment (completed_keyframes db script_id) \<noteq> [] \<and>
          dict_by kf_segment_id (completed_keyframes db script_id)
            (kf_segment_id (hd (filter is_normal_segment (completed_keyframes db script_id)))
               @ u ''_first_frame'') = None \<longrightarrow>
            snd (generate_videos db now script_id model aspect_ratio duration)
              = Inl (ValidationError (FirstFrameMissing
                  (kf_segment_id (hd (filter is_normal_segment (completed_keyframes db script_id)))
                     @ u ''_first_frame''))))"
  using assms by (auto simp: generate_videos_def Let_def)

text \<open>
  The amended claim C6 at a script with no keyframe and at a script whose only completed
  keyframe is \<open>segment_0\<close>.
\<close>

theorem C6_witness:
  "snd (generate_videos (video_store [] []) 0 1 (u ''veo3.1-fast'') (u ''16:9'') 6)
     = Inl (ValidationError NoCompletedKeyframes) \<and>
   snd (generate_videos (video_store [example_keyframe 2 (u ''segment_0'') COMPLETED] [])
          0 1 (u ''veo3.1-fast'') (u ''16:9'') 6)
     = Inl (ValidationError (FirstFrameMissing (u ''segment_0_first_frame'')))"
proof -
  let ?none = "video_store [] []"
  let ?db = "video_store [example_keyframe 2 (u ''segment_0'') COMPLETED] []"
  have h0: "find (\<lambda>s. s_id s = 1) (scripts ?none) = Some \<lparr>s_id = 1, s_content = example_script\<rparr>"
    by (simp add: video_store_def)
  have h1: "find (\<lambda>s. s_id s = 1) (scripts ?db) = Some \<lparr>s_id = 1, s_content = example_script\<rparr>"
    by (simp add: video_store_def)
  have k0: "completed_keyframes ?none 1 = []"
    by (simp add: completed_keyframes_def video_store_def)
  have k1: "filter is_normal_segment (completed_keyframes ?db 1)
              = [example_keyframe 2 (u ''segment_0'') COMPLETED]"
    by code_simp
  have k2: "dict_by kf_segment_id (completed_keyframes ?db 1) (u ''segment_0_first_frame'') = None"
    by code_simp
  have k3: "kf_segment_id (example_keyframe 2 (u ''segment_0'') COMPLETED) @ u ''_first_frame''
              = u ''segment_0_first_frame''"
    by code_simp
  from C6_missing_first_frame [OF h0, of 0 "u ''veo3.1-fast''" "u ''16:9''" 6] k0
  have a: "snd (generate_videos ?none 0 1 (u ''veo3.1-fast'') (u ''16:9'') 6)
             = Inl (ValidationError NoCompletedKeyframes)"
    by blast
  from C6_missing_first_frame [OF h1, of 0 "u ''veo3.1-fast''" "u ''16:9''" 6]
  have b: "snd (generate_videos ?db 0 1 (u ''veo3.1-fast'') (u ''16:9'') 6)
             = Inl (ValidationError (FirstFrameMissing (u ''segment_0_first_frame'')))"
    unfolding k1 using k2 k3 by simp
  from a b show ?thesis by simp
qed

text \<open>
  Claim C6 as stated fails: with \<open>segment_0\<close> completed and no opening-frame keyframe,
  the request raises \<open>ValidationError\<close>, not \<open>NotFoundError\<close>.
\<close>

theorem C6_counterexample:
  "filter is_normal_segment
     (completed_keyframes (video_store [example_keyframe 2 (u ''segment_0'') COMPLETED] []) 1)
     = [example_keyframe 2 (u ''segment_0'') COMPLETED] \<and>
   snd (generate_videos (video_store [example_keyframe 2 (u ''segment_0'') COMPLETED] [])
          0 1 (u ''veo3.1-fast'') (u ''16:9'') 6)
     = Inl (ValidationError (FirstFrameMissing (u ''segment_0_first_frame'')))"
  by code_simp

lemma sorted_positions:
  assumes "sorted (map f xs)" and "a \<in> set xs" and "b \<in> set xs" and "f a < f b"
  shows "\<exists>i j. i < j \<and> j < length xs \<and> xs ! i = a \<and> xs ! j = b"
proof -
  from assms(2) obtain i where i: "i < length xs" "xs ! i = a"
    by (auto simp: in_set_conv_nth)
  from assms(3) obtain j where j: "j < length xs" "xs ! j = b"
    by (auto simp: in_set_conv_nth)
  have "i < j"
  proof (rule ccontr)
    assume "\<not> i < j"
    then have "j \<le> i" by simp
    with assms(1) i(1) have "map f xs ! j \<le> map f xs ! i"
      by (simp add: sorted_iff_nth_mono)
    with i j have "f b \<le> f a" by simp
    with assms(4) show False by simp
  qed
  with i j show ?thesis by blast
qed

lemma segment_10_before_segment_2: "u ''segment_10'' < u ''segment_2''"
  by code_simp

lemma str_of_nat_10: "str_of_nat 10 = u ''10''"
  by code_simp

lemma str_of_nat_2: "str_of_nat 2 = u ''2''"
  by code_simp

lemma u_append: "u (a @ b) = u a @ u b"
  by (simp add: u_def)

text \<open>
  Claim C9, as amended. Video generation chains the completed body keyframes in the
  order of their segment ids as strings. For every stored script whose completed body
  keyframes are \<open>segment_0\<close>, ..., \<open>segment_(N-1)\<close> with N at least 11 (and whose
  opening-frame keyframe is completed), the rows are created, their last frames are the
  body keyframes in that string order, and \<open>segment_10\<close> stands before \<open>segment_2\<close> in
  it, unlike in playback order.
\<close>

theorem C9_lexicographic_chain:
  assumes script: "find (\<lambda>s. s_id s = script_id) (scripts db) = Some script"
    and body: "filter is_normal_segment (completed_keyframes db script_id) = body"
    and ids: "set (map kf_segment_id body) = set (map (\<lambda>i. u ''segment_'' @ str_of_nat i) [0..<N])"
    and N: "11 \<le> N"
    and first_frame: "dict_by kf_segment_id (completed_keyframes db script_id)
                        (kf_segment_id (hd body) @ u ''_first_frame'') = Some first_frame"
  shows "\<exists>db' rows i j.
           generate_videos db now script_id model aspect_ratio duration = (db', Inr rows) \<and>
           map vs_last_frame_url rows = map kf_image_url body \<and>
           sorted (map kf_segment_id body) \<and>
           i < j \<and> j < length body \<and>
           kf_segment_id (body ! i) = u ''segment_10'' \<and>
           kf_segment_id (body ! j) = u ''segment_2''"
proof -
  have "u ''segment_'' @ str_of_nat 10 \<in> set (map (\<lambda>i. u ''segment_'' @ str_of_nat i) [0..<N])"
    using N by auto
  then have "u ''segment_10'' \<in> set (map kf_segment_id body)"
    unfolding ids str_of_nat_10 by (simp add: u_def)
  then obtain k10 where k10: "k10 \<in> set body" "kf_segment_id k10 = u ''segment_10''"
    by auto
  have "u ''segment_'' @ str_of_nat 2 \<in> set (map (\<lambda>i. u ''segment_'' @ str_of_nat i) [0..<N])"
    using N by auto
  then have "u ''segment_2'' \<in> set (map kf_segment_id body)"
    unfolding ids str_of_nat_2 by (simp add: u_def)
  then obtain k2 where k2: "k2 \<in> set body" "kf_segment_id k2 = u ''segment_2''"
    by auto
  have srt: "sorted (map kf_segment_id body)"
    unfolding body [symmetric] completed_keyframes_def
    by (intro sorted_filter sorted_sort_key)
  from sorted_positions [OF srt k10(1) k2(1)] k10(2) k2(2) segment_10_before_segment_2
  obtain i j where ij: "i < j" "j < length body" "body ! i = k10" "body ! j = k2"
    by auto
  have N': "body \<noteq> []"
    using k2(1) by auto
  from generate_videos_rows [OF script body N' first_frame, of now model aspect_ratio duration]
  obtain db' rows where
    run: "generate_videos db now script_id model aspect_ratio duration = (db', Inr rows)"
    and frames: "map vs_last_frame_url rows = map kf_image_url body"
    by blast
  show ?thesis
    apply (rule exI [of _ db'], rule exI [of _ rows], rule exI [of _ i], rule exI [of _ j])
    using run frames srt ij k10(2) k2(2) by simp
qed

text \<open>The amended claim C9 at a script with an opening frame and 11 body keyframes.\<close>

theorem C9_witness:
  "\<exists>db' rows i j.
     generate_videos (video_store (chain_keyframes 11) []) 0 1 (u ''veo3.1-fast'') (u ''16:9'') 6
       = (db', Inr rows) \<and>
     map vs_last_frame_url rows =
       map (\<lambda>i. Some (u ''https://oss/segment_'' @ str_of_nat i))
         [0, 1, 10, 2, 3, 4, 5, 6, 7, 8, 9] \<and>
     sorted (map (\<lambda>i. u ''segment_'' @ str_of_nat i)
         [0, 1, 10, 2, 3, 4, 5, 6, 7, 8, 9]) \<and>
     i < j \<and> j < 11 \<and>
     map (\<lambda>i. u ''segment_'' @ str_of_nat i)
         [0, 1, 10, 2, 3, 4, 5, 6, 7, 8, 9] ! i = u ''segment_10'' \<and>
     map (\<lambda>i. u ''segment_'' @ str_of_nat i)
         [0, 1, 10, 2, 3, 4, 5, 6, 7, 8, 9] ! j = u ''segment_2''"
proof -
  let ?db = "video_store (chain_keyframes 11) []"
  let ?body = "map (\<lambda>i. example_keyframe (i + 2) (u ''segment_'' @ str_of_nat i) COMPLETED)
      [0, 1, 10, 2, 3, 4, 5, 6, 7, 8, 9]"
  have h1: "find (\<lambda>s. s_id s = 1) (scripts ?db) = Some \<lparr>s_id = 1, s_content = example_script\<rparr>"
    by (simp add: video_store_def)
  have h2: "filter is_normal_segment (completed_keyframes ?db 1) = ?body"
    by code_simp
  have h3: "set (map kf_segment_id ?body) = set (map (\<lambda>i. u ''segment_'' @ str_of_nat i) [0..<11])"
    by code_simp
  have h4: "(11::nat) \<le> 11" by simp
  have h5: "dict_by kf_segment_id (completed_keyframes ?db 1)
              (kf_segment_id (hd ?body) @ u ''_first_frame'')
            = Some (example_keyframe 1 (u ''segment_0_first_frame'') COMPLETED)"
    by code_simp
  have e1: "map kf_image_url ?body = map (\<lambda>i. Some (u ''https://oss/segment_'' @ str_of_nat i))
         [0, 1, 10, 2, 3, 4, 5, 6, 7, 8, 9]"
    by code_simp
  have e2: "map kf_segment_id ?body = map (\<lambda>i. u ''segment_'' @ str_of_nat i)
         [0, 1, 10, 2, 3, 4, 5, 6, 7, 8, 9]"
    by code_simp
  have e3: "length ?body = 11" by simp
  have e4: "kf_segment_id (?body ! i) = map kf_segment_id ?body ! i" if "i < 11" for i
    using that by (subst nth_map) (simp_all only: e3)
  from C9_lexicographic_chain [OF h1 h2 h3 h4 h5, of 0 "u ''veo3.1-fast''" "u ''16:9''" 6]
  obtain db' rows i j where
    r: "generate_videos ?db 0 1 (u ''veo3.1-fast'') (u ''16:9'') 6 = (db', Inr rows)"
       "map vs_last_frame_url rows = map kf_image_url ?body"
       "sorted (map kf_segment_id ?body)"
       "i < j" "j < length ?body"
       "kf_segment_id (?body ! i) = u ''segment_10''"
       "kf_segment_id (?body ! j) = u ''segment_2''"
    by blast
  from r(4,5) have ij: "i < 11" "j < 11" by (simp_all only: e3)
  show ?thesis
    apply (rule exI [of _ db'], rule exI [of _ rows], rule exI [of _ i], rule exI [of _ j])
    using r(1) r(2) [unfolded e1] r(3) [unfolded e2] r(4) ij(2)
      r(6) [unfolded e4 [OF ij(1)] e2] r(7) [unfolded e4 [OF ij(2)] e2]
    by (intro conjI)
qed

text \<open>
  Claim C9 as stated fails at 10 completed body keyframes: \<open>segment_0\<close>, ...,
  \<open>segment_9\<close> are chained in playback order, since their string order is their numeric
  order.
\<close>

theorem C9_counterexample:
  "length (filter is_normal_segment
     (completed_keyframes (video_store (chain_keyframes 10) []) 1)) = 10 \<and>
   map kf_segment_id (filter is_normal_segment
     (completed_keyframes (video_store (chain_keyframes 10) []) 1))
     = map (\<lambda>i. u ''segment_'' @ str_of_nat i) [0, 1, 2, 3, 4, 5, 6, 7, 8, 9] \<and>
   (case snd (generate_videos (video_store (chain_keyframes 10) []) 0 1
                (u ''veo3.1-fast'') (u ''16:9'') 6) of
      Inl e \<Rightarrow> [] | Inr rows \<Rightarrow> map vs_last_frame_url rows)
     = map (\<lambda>i. Some (u ''https://oss/segment_'' @ str_of_nat i)) [0, 1, 2, 3, 4, 5, 6, 7, 8, 9]"
  by code_simp


section \<open>Properties of the list reads\<close>

lemma refresh_stale_keyframe_script_id [simp]:
  "kf_script_id (refresh_stale_keyframe now k) = kf_script_id k"
  by (simp add: refresh_stale_keyframe_def)





section \<open>Properties of the keyframe background task\<close>

text \<open>
  The loop visits the keyframes in the order of the ids it was given, the first job gets
  no reference, and each later job gets the URL the job before it returned or, when that
  job failed, the reference that job itself was given.
\<close>

lemma keyframes_loop_visits_in_order:
  "map call_keyframe_id
     (snd (keyframes_loop env segment_map model aspect_ratio quality clock db previous i ids))
   = ids"
  by (induction ids arbitrary: db previous i) (simp_all add: case_prod_beta)

lemma keyframes_loop_first_reference:
  "snd (keyframes_loop env segment_map model aspect_ratio quality clock db previous i ids) = c # cs
   \<Longrightarrow> call_reference c = previous"
  by (cases ids) (auto simp: case_prod_beta)

lemma keyframes_loop_next_reference:
  "snd (keyframes_loop env segment_map model aspect_ratio quality clock db previous i ids) = calls
   \<Longrightarrow> Suc n < length calls
   \<Longrightarrow> call_reference (calls ! Suc n) =
         (if truthy (call_result (calls ! n)) then call_result (calls ! n)
          else call_reference (calls ! n))"
proof (induction ids arbitrary: db previous i n calls)
  case Nil
  then show ?case by simp
next
  case (Cons keyframe_id ids)
  obtain db' result_url events where job:
    "generate_single_keyframe_image_with_session env db (clock i) keyframe_id segment_map
       model aspect_ratio quality previous = (db', result_url, events)"
    by (cases "generate_single_keyframe_image_with_session env db (clock i) keyframe_id
       segment_map model aspect_ratio quality previous") auto
  let ?next = "if truthy result_url then result_url else previous"
  let ?c = "\<lparr>call_keyframe_id = keyframe_id, call_reference = previous, call_result = result_url\<rparr>"
  let ?rest = "snd (keyframes_loop env segment_map model aspect_ratio quality clock db' ?next (Suc i) ids)"
  have calls: "calls = ?c # ?rest"
    using Cons.prems(1) job by (auto simp: case_prod_beta)
  show ?case
  proof (cases n)
    case 0
    with Cons.prems(2) calls obtain c' cs where rest: "?rest = c' # cs"
      by (cases ?rest) auto
    from keyframes_loop_first_reference [OF rest] have "call_reference c' = ?next" .
    with 0 calls rest show ?thesis by simp
  next
    case (Suc m)
    with Cons.prems(2) calls have "Suc m < length ?rest" by simp
    from Cons.IH [OF refl this] Suc calls show ?thesis by simp
  qed
qed

text \<open>
  Claim C1 at three keyframes of which the second fails. The jobs run in creation order
  and the third job is still invoked, but its reference is the image of the first
  keyframe, the last earlier success, and not none as the claim and the log message of
  the loop (continuing without reference) say.
\<close>

theorem C1_reference_after_failure:
  "snd (generate_keyframes_background demo_services three_keyframes (\<lambda>i. int i) [1, 2, 3] []
          (u ''nano-banana'') (u ''16:9'') None)
   = [\<lparr>call_keyframe_id = 1, call_reference = None,
       call_result = Some (u ''https://oss/keyframe_1.jpg'')\<rparr>,
      \<lparr>call_keyframe_id = 2, call_reference = Some (u ''https://oss/keyframe_1.jpg''),
       call_result = None\<rparr>,
      \<lparr>call_keyframe_id = 3, call_reference = Some (u ''https://oss/keyframe_1.jpg''),
       call_result = Some (u ''https://oss/keyframe_3.jpg'')\<rparr>] \<and>
   map kf_status (keyframes (fst (generate_keyframes_background demo_services three_keyframes
          (\<lambda>i. int i) [1, 2, 3] [] (u ''nano-banana'') (u ''16:9'') None)))
   = [COMPLETED, FAILED, COMPLETED]"
  by code_simp


section \<open>Properties of the polling loops\<close>

lemma sleeps_append [simp]: "sleeps (xs @ ys) = sleeps xs @ sleeps ys"
  by (induction xs rule: sleeps.induct) simp_all

lemma sleeps_poll_events [simp]: "sleeps (poll_events api interval task_id) = [interval]"
  by (simp add: poll_events_def)

lemma sleeps_jimeng_query_events [simp]: "sleeps (jimeng_query_events volc task_id) = [2]"
  by (simp add: jimeng_query_events_def)













section \<open>Properties of the job of one video segment\<close>










section \<open>Properties of the generation calls\<close>

lemma length_poll_events [simp]: "length (poll_events api interval task_id) = 2"
  by (simp add: poll_events_def)

lemma length_jimeng_query_events [simp]: "length (jimeng_query_events volc task_id) = 2"
  by (simp add: jimeng_query_events_def)

















end
